theory Spec2Isabelle
  imports Main "HOL-Library.AList"
begin

section \<open>Data model of the dev registry\<close>

text \<open>
  The \<^verbatim>\<open>WorkerDefinition\<close> type of the source. A field typed \<^verbatim>\<open>T | undefined\<close> or
  declared optional (\<^verbatim>\<open>headers?\<close>) is an \<open>option\<close>; JSON serialisation drops an
  undefined field, so an absent field and an undefined one are the same value \<open>None\<close>.
  Port numbers are modelled as integers.
\<close>

datatype Protocol = Http | Https

datatype Mode = Local | Remote

record DurableObject =
  name :: string
  className :: string

record WorkerDefinition =
  port :: "int option"
  protocol :: "Protocol option"
  host :: "string option"
  mode :: Mode
  headers :: "(string \<times> string) list option"
  durableObjects :: "DurableObject list"
  durableObjectsHost :: "string option"
  durableObjectsPort :: "int option"

text \<open>
  The definition used in the examples below: a local worker on a given port, with
  nothing else set.
\<close>

abbreviation local_worker :: "int \<Rightarrow> WorkerDefinition" where
  "local_worker p \<equiv>
     \<lparr>port = Some p, protocol = None, host = None, mode = Local, headers = None,
      durableObjects = [], durableObjectsHost = None, durableObjectsPort = None\<rparr>"

text \<open>
  \<^verbatim>\<open>WorkerRegistry = Record<string, WorkerDefinition>\<close> as it travels in a JSON body: the
  list of its entries, in the order \<^verbatim>\<open>Object.entries\<close> enumerates them. The keys of a
  JavaScript object are pairwise distinct.
\<close>

type_synonym WorkerRegistry = "(string \<times> WorkerDefinition) list"

section \<open>The server's \<^verbatim>\<open>workers\<close> object\<close>

text \<open>
  \<^verbatim>\<open>let workers: WorkerRegistry = {}\<close> is an ordinary JavaScript object whose prototype
  is \<^verbatim>\<open>Object.prototype\<close>. The model keeps its own enumerable properties and its
  prototype link (\<open>None\<close> stands for \<^verbatim>\<open>Object.prototype\<close>).
\<close>

record JsObject =
  props :: WorkerRegistry
  proto :: "WorkerDefinition option"

definition empty_object :: JsObject where
  "empty_object = \<lparr>props = [], proto = None\<rparr>"

text \<open>
  The assignment \<^verbatim>\<open>obj[key] = value\<close>. For every key but one it defines or overwrites
  the own data property \<^verbatim>\<open>key\<close>. The key \<^verbatim>\<open>__proto__\<close> is an accessor inherited from
  \<^verbatim>\<open>Object.prototype\<close>: assigning an object to it runs the setter, which replaces the
  prototype of \<^verbatim>\<open>obj\<close> and creates no own property. (The values assigned here are
  parsed JSON bodies of type \<^verbatim>\<open>WorkerDefinition\<close>: objects without an own
  \<^verbatim>\<open>__proto__\<close> property, all of whose properties are writable data properties, so a
  prototype installed this way never intercepts a later assignment.)
\<close>

definition js_assign :: "string \<Rightarrow> WorkerDefinition \<Rightarrow> JsObject \<Rightarrow> JsObject" where
  "js_assign key v obj =
     (if key = ''__proto__'' then obj\<lparr>proto := Some v\<rparr>
      else obj\<lparr>props := AList.update key v (props obj)\<rparr>)"

text \<open>\<^verbatim>\<open>delete obj[key]\<close> removes the own property \<^verbatim>\<open>key\<close> if there is one.\<close>

definition js_delete :: "string \<Rightarrow> JsObject \<Rightarrow> JsObject" where
  "js_delete key obj = obj\<lparr>props := AList.delete key (props obj)\<rparr>"

text \<open>
  \<^verbatim>\<open>res.json(obj)\<close> serialises with \<^verbatim>\<open>JSON.stringify\<close>: the own enumerable properties
  only, nothing inherited.
\<close>

definition js_stringify :: "JsObject \<Rightarrow> WorkerRegistry" where
  "js_stringify obj = props obj"

section \<open>Endpoint handlers of \<^verbatim>\<open>startWorkerRegistry\<close>\<close>

datatype Response = JsonNull | JsonRegistry WorkerRegistry

text \<open>
  Each handler takes the closure variable \<^verbatim>\<open>workers\<close> and returns the response body
  together with the new value of \<^verbatim>\<open>workers\<close>.
\<close>

definition get_workers :: "JsObject \<Rightarrow> Response \<times> JsObject" where
  \<comment> \<open>\<^verbatim>\<open>GET /workers\<close>: \<^verbatim>\<open>res.json(workers)\<close>\<close>
  "get_workers workers = (JsonRegistry (js_stringify workers), workers)"

definition post_worker :: "string \<Rightarrow> WorkerDefinition \<Rightarrow> JsObject \<Rightarrow> Response \<times> JsObject" where
  \<comment> \<open>\<^verbatim>\<open>POST /workers/:workerId\<close>: \<^verbatim>\<open>workers[req.params.workerId] = req.body\<close>\<close>
  "post_worker workerId body workers = (JsonNull, js_assign workerId body workers)"

definition delete_worker :: "string \<Rightarrow> JsObject \<Rightarrow> Response \<times> JsObject" where
  \<comment> \<open>\<^verbatim>\<open>DELETE /workers/:workerId\<close>: \<^verbatim>\<open>delete workers[req.params.workerId]\<close>\<close>
  "delete_worker workerId workers = (JsonNull, js_delete workerId workers)"

definition delete_workers :: "JsObject \<Rightarrow> Response \<times> JsObject" where
  \<comment> \<open>\<^verbatim>\<open>DELETE /workers\<close>: \<^verbatim>\<open>workers = {}\<close>\<close>
  "delete_workers workers = (JsonNull, empty_object)"

text \<open>The registry as a client sees it: what \<^verbatim>\<open>GET /workers\<close> answers, looked up by name.\<close>

definition registry_lookup :: "JsObject \<Rightarrow> string \<Rightarrow> WorkerDefinition option" where
  "registry_lookup workers n = map_of (js_stringify workers) n"

section \<open>Errors and the logging sink\<close>

text \<open>
  A thrown JavaScript error, as far as the code inspects it: \<^verbatim>\<open>err.code\<close> (read by the
  listeners of \<^verbatim>\<open>isPortAvailable\<close> and of the server) and \<^verbatim>\<open>e.cause?.code\<close> (read by
  the client operations). \<^verbatim>\<open>fetch\<close> rejects with an error object, never with
  \<^verbatim>\<open>null\<close> or \<^verbatim>\<open>undefined\<close>.
\<close>

datatype Cause = Cause (code: "string option")

record JsError =
  err_code :: "string option"
  cause :: "Cause option"

text \<open>
  \<^verbatim>\<open>e.cause?.code || "___"\<close>: a missing cause, a missing code and the empty string
  all give the placeholder.
\<close>

definition cause_code_or_default :: "JsError \<Rightarrow> string" where
  "cause_code_or_default e =
     (case cause e of
        None \<Rightarrow> ''___''
      | Some c \<Rightarrow> (case code c of
                    None \<Rightarrow> ''___''
                  | Some s \<Rightarrow> if s = [] then ''___'' else s))"

definition is_unavailable :: "JsError \<Rightarrow> bool" where
  \<comment> \<open>\<^verbatim>\<open>["ECONNRESET", "ECONNREFUSED"].includes(e.cause?.code || "___")\<close>\<close>
  "is_unavailable e = (cause_code_or_default e \<in> set [''ECONNRESET'', ''ECONNREFUSED''])"

datatype LogLevel = LogError | LogDebug

type_synonym Logger = "(LogLevel \<times> string \<times> JsError) list"

definition logger_error :: "string \<Rightarrow> JsError \<Rightarrow> Logger \<Rightarrow> Logger" where
  "logger_error msg e lg = lg @ [(LogError, msg, e)]"

definition logger_debug :: "string \<Rightarrow> JsError \<Rightarrow> Logger \<Rightarrow> Logger" where
  "logger_debug msg e lg = lg @ [(LogDebug, msg, e)]"

section \<open>Process state and \<^verbatim>\<open>startWorkerRegistry\<close>\<close>

text \<open>
  The module variables \<^verbatim>\<open>server\<close> and \<^verbatim>\<open>terminator\<close> refer to a server instance by
  its identifier. \<open>live\<close> lists the instances of this process whose listening socket is
  open, each with its closure variable \<^verbatim>\<open>workers\<close>; \<open>created\<close> counts the instances
  created so far and supplies fresh identifiers.
\<close>

record ServerInstance =
  ident :: nat
  workers :: JsObject

record Process =
  server :: "nat option"
  terminator :: "nat option"
  live :: "ServerInstance list"
  created :: nat

definition initial_process :: Process where
  "initial_process = \<lparr>server = None, terminator = None, live = [], created = 0\<rparr>"

text \<open>
  What a call of \<^verbatim>\<open>listen(DEV_REGISTRY_PORT, "127.0.0.1")\<close> leads to: the
  \<^verbatim>\<open>listening\<close> event, or the \<^verbatim>\<open>error\<close> event with the error's code. It is decided
  by the operating system, so it is an input of the model.
\<close>

datatype ListenOutcome = Listening | ListenError string

definition system_error :: "string \<Rightarrow> JsError" where
  "system_error c = \<lparr>err_code = Some c, cause = None\<rparr>"

definition isPortAvailable :: "ListenOutcome \<Rightarrow> JsError + bool" where
  "isPortAvailable probe =
     (case probe of
        ListenError c \<Rightarrow> if c = ''EADDRINUSE'' then Inr False else Inl (system_error c)
      | Listening \<Rightarrow> Inr True)"

text \<open>
  \<^verbatim>\<open>startWorkerRegistry\<close>: the probe is awaited first; a rejected probe rejects the
  call. The test of \<^verbatim>\<open>!server\<close> and the creation of the instance run in one
  continuation, without a suspension point in between. \<open>bind\<close> is the outcome of the
  new server's own \<^verbatim>\<open>listen\<close>: when it fails the handle stays set and no socket is
  open.
\<close>

definition startWorkerRegistry :: "ListenOutcome \<Rightarrow> ListenOutcome \<Rightarrow> Process \<Rightarrow> JsError + Process" where
  "startWorkerRegistry probe bind p =
     (case isPortAvailable probe of
        Inl e \<Rightarrow> Inl e
      | Inr available \<Rightarrow>
          if available \<and> server p = None then
            let i = created p;
                p1 = p\<lparr>server := Some i, terminator := Some i, created := Suc i\<rparr>
            in Inr (case bind of
                      Listening \<Rightarrow> p1\<lparr>live := \<lparr>ident = i, workers = empty_object\<rparr> # live p1\<rparr>
                    | ListenError c \<Rightarrow> p1)
          else Inr p)"

text \<open>
  The listener \<^verbatim>\<open>server.once("error", ...)\<close>: an error other than
  \<^verbatim>\<open>EADDRINUSE\<close> is thrown from the listener (outside any call of
  \<^verbatim>\<open>startWorkerRegistry\<close>), \<^verbatim>\<open>EADDRINUSE\<close> is ignored.
\<close>

definition server_on_error :: "string \<Rightarrow> Process \<Rightarrow> JsError + Process" where
  "server_on_error c p = (if c \<noteq> ''EADDRINUSE'' then Inl (system_error c) else Inr p)"

text \<open>
  The socket of instance \<open>i\<close> closes: the instance is live no more, and the listener
  \<^verbatim>\<open>server.on("close", ...)\<close> runs \<^verbatim>\<open>server = null\<close>.
\<close>

definition server_on_close :: "nat \<Rightarrow> Process \<Rightarrow> Process" where
  "server_on_close i p = p\<lparr>live := filter (\<lambda>s. ident s \<noteq> i) (live p), server := None\<rparr>"

definition is_live :: "nat \<Rightarrow> Process \<Rightarrow> bool" where
  "is_live i p = (i \<in> set (map ident (live p)))"

text \<open>
  \<^verbatim>\<open>stopWorkerRegistry\<close>: \<^verbatim>\<open>await terminator?.terminate()\<close> closes the socket of the
  terminator's instance if it is open, then \<^verbatim>\<open>server = null\<close>.
\<close>

definition stopWorkerRegistry :: "Process \<Rightarrow> Process" where
  "stopWorkerRegistry p =
     (let p1 = (case terminator p of
                  None \<Rightarrow> p
                | Some i \<Rightarrow> if is_live i p then server_on_close i p else p)
      in p1\<lparr>server := None\<rparr>)"

text \<open>
  A history of one process: calls of \<^verbatim>\<open>startWorkerRegistry\<close> (each with the two
  outcomes the operating system gives it), sockets closing, and calls of
  \<^verbatim>\<open>stopWorkerRegistry\<close>. A call that throws leaves the state as it was; only an open
  socket can close. (An error thrown from the server's \<^verbatim>\<open>error\<close> listener is uncaught
  and ends the process; the history of a process that goes on has none.)
\<close>

datatype Event = StartCall ListenOutcome ListenOutcome | SocketClose nat | StopCall

definition step :: "Event \<Rightarrow> Process \<Rightarrow> Process" where
  "step ev p =
     (case ev of
        StartCall probe bind \<Rightarrow>
          (case startWorkerRegistry probe bind p of Inl e \<Rightarrow> p | Inr p' \<Rightarrow> p')
      | SocketClose i \<Rightarrow> if is_live i p then server_on_close i p else p
      | StopCall \<Rightarrow> stopWorkerRegistry p)"

fun run :: "Event list \<Rightarrow> Process \<Rightarrow> Process" where
  "run [] p = p"
| "run (ev # evs) p = run evs (step ev p)"

section \<open>Client operations\<close>

text \<open>
  The outcome of a \<^verbatim>\<open>fetch\<close> is an input of the model: the promise rejects with an
  error (\<open>Inl\<close>) or resolves with the response (\<open>Inr\<close>).
\<close>

type_synonym FetchOutcome = "JsError + Response"

text \<open>
  \<^verbatim>\<open>registerWorker\<close>: \<^verbatim>\<open>await startWorkerRegistry()\<close> stands outside the
  \<^verbatim>\<open>try\<close>, so its rejection propagates and no request is made. Inside the \<^verbatim>\<open>try\<close>
  the response is returned; the \<^verbatim>\<open>catch\<close> logs and falls through, so the call
  returns \<^verbatim>\<open>undefined\<close> (\<open>None\<close>).
\<close>

definition registerWorker ::
  "string \<Rightarrow> WorkerDefinition \<Rightarrow> ListenOutcome \<Rightarrow> ListenOutcome \<Rightarrow> FetchOutcome
     \<Rightarrow> Process \<times> Logger \<Rightarrow> (JsError + Response option) \<times> Process \<times> Logger" where
  "registerWorker nm definition probe bind fetched st =
     (case st of (p, lg) \<Rightarrow>
        (case startWorkerRegistry probe bind p of
           Inl e \<Rightarrow> (Inl e, p, lg)
         | Inr p' \<Rightarrow>
             (case fetched of
                Inr response \<Rightarrow> (Inr (Some response), p', lg)
              | Inl e \<Rightarrow>
                  if \<not> is_unavailable e then
                    (Inr None, p',
                     logger_error ''Failed to register worker in local service registry'' e lg)
                  else
                    (Inr None, p',
                     logger_debug ''Failed to register worker in local service registry'' e lg))))"

definition unregisterWorker :: "string \<Rightarrow> FetchOutcome \<Rightarrow> JsError + unit" where
  "unregisterWorker nm fetched =
     (case fetched of
        Inr response \<Rightarrow> Inr ()
      | Inl e \<Rightarrow> if \<not> is_unavailable e then Inl e else Inr ())"

text \<open>
  \<^verbatim>\<open>getRegisteredWorkers\<close>: the parsed body of the response, \<^verbatim>\<open>undefined\<close>
  (\<open>None\<close>) when the registry is unreachable, any other error re-thrown. The body of a
  response to \<^verbatim>\<open>GET /workers\<close> is a registry; \<^verbatim>\<open>null\<close> parses to \<^verbatim>\<open>null\<close>,
  which the caller's \<^verbatim>\<open>|| {}\<close> treats like \<^verbatim>\<open>undefined\<close>.
\<close>

definition getRegisteredWorkers :: "FetchOutcome \<Rightarrow> JsError + WorkerRegistry option" where
  "getRegisteredWorkers fetched =
     (case fetched of
        Inr (JsonRegistry r) \<Rightarrow> Inr (Some r)
      | Inr JsonNull \<Rightarrow> Inr None
      | Inl e \<Rightarrow> if \<not> is_unavailable e then Inl e else Inr None)"

text \<open>
  Modelled from the spec: the binding declarations of the configuration type
  \<^verbatim>\<open>Config\<close>, whose declaration is not part of the sources at hand. A service binding
  names its target \<^verbatim>\<open>service\<close>; a durable-object binding may name the
  \<^verbatim>\<open>script_name\<close> of the worker that hosts the class.
\<close>

record ServiceBinding =
  binding :: string
  service :: string

record DurableObjectBinding =
  binding_name :: string
  class_name :: string
  script_name :: "string option"

record DurableObjects =
  bindings :: "DurableObjectBinding list"

text \<open>
  \<^verbatim>\<open>Object.fromEntries\<close> defines the entries one after the other as own data
  properties of a new object (a later entry for a key overwrites the earlier one);
  no setter runs, whatever the key.
\<close>

definition fromEntries :: "WorkerRegistry \<Rightarrow> WorkerRegistry" where
  "fromEntries entries = foldl (\<lambda>obj (k, v). AList.update k v obj) [] entries"

text \<open>
  \<^verbatim>\<open>getBoundRegisteredWorkers\<close>. \<open>fetched\<close> is the outcome of the request that its
  call of \<^verbatim>\<open>getRegisteredWorkers\<close> makes; an error thrown there propagates. An element
  of \<^verbatim>\<open>durableObjectServices\<close> may be \<^verbatim>\<open>undefined\<close>, which \<^verbatim>\<open>includes\<close> never
  finds equal to a key.
\<close>

definition getBoundRegisteredWorkers ::
  "ServiceBinding list option \<Rightarrow> DurableObjects option \<Rightarrow> FetchOutcome
     \<Rightarrow> JsError + WorkerRegistry" where
  "getBoundRegisteredWorkers services durable_objects fetched =
     (let serviceNames = map service (case services of None \<Rightarrow> [] | Some ss \<Rightarrow> ss);
          durableObjectServices =
            map script_name
              (bindings (case durable_objects of None \<Rightarrow> \<lparr>bindings = []\<rparr> | Some d \<Rightarrow> d))
      in case getRegisteredWorkers fetched of
           Inl e \<Rightarrow> Inl e
         | Inr workerDefinitions \<Rightarrow>
             Inr (fromEntries
                    (filter (\<lambda>(key, val).
                               key \<in> set serviceNames \<or> Some key \<in> set durableObjectServices)
                       (case workerDefinitions of None \<Rightarrow> [] | Some r \<Rightarrow> r))))"

section \<open>Notions used in the statements\<close>

text \<open>
  The names a configuration declares a binding to, in the words of the specification:
  the target service of some declared service binding, or the script name of some
  declared durable-object binding.
\<close>

definition declared_target ::
  "ServiceBinding list option \<Rightarrow> DurableObjects option \<Rightarrow> string \<Rightarrow> bool" where
  "declared_target services durable_objects n =
     ((\<exists>s \<in> set (case services of None \<Rightarrow> [] | Some ss \<Rightarrow> ss). service s = n) \<or>
      (\<exists>b \<in> set (case durable_objects of None \<Rightarrow> [] | Some d \<Rightarrow> bindings d).
          script_name b = Some n))"

text \<open>The error has a cause, and the cause's code is the string \<open>s\<close>.\<close>

definition cause_code_is :: "JsError \<Rightarrow> string \<Rightarrow> bool" where
  "cause_code_is e s = (case cause e of None \<Rightarrow> False | Some c \<Rightarrow> code c = Some s)"

text \<open>
  The invariant behind the single authority: every live instance is the one the
  handle \<^verbatim>\<open>server\<close> refers to, no instance is listed twice, identifiers of live
  instances have been handed out already, and while the handle is set the terminator
  wraps the same instance.
\<close>

definition single_authority :: "Process \<Rightarrow> bool" where
  "single_authority p =
     ((\<forall>s \<in> set (live p). server p = Some (ident s)) \<and>
      distinct (map ident (live p)) \<and>
      (\<forall>s \<in> set (live p). ident s < created p) \<and>
      (server p \<noteq> None \<longrightarrow> terminator p = server p))"

section \<open>Upsert and clear on the server\<close>

lemma upsert_replaces_ordinary_name:
  assumes "n \<noteq> ''__proto__''"
  shows "registry_lookup (snd (post_worker n d2 (snd (post_worker n d1 w)))) n = Some d2
       \<and> (\<forall>m. m \<noteq> n \<longrightarrow>
             registry_lookup (snd (post_worker n d2 (snd (post_worker n d1 w)))) m
               = registry_lookup w m)"
  using assms
  by (simp add: post_worker_def js_assign_def registry_lookup_def js_stringify_def
                AList.update_conv')

lemma post_worker_proto_name_ignored:
  "js_stringify (snd (post_worker ''__proto__'' d w)) = js_stringify w"
  by (simp add: post_worker_def js_assign_def js_stringify_def)

text \<open>
  Claim C1 (upsert fully replaces, for every worker name). For every name other than
  \<^verbatim>\<open>__proto__\<close> the handler does what the claim says
  (\<open>upsert_replaces_ordinary_name\<close>). At the name \<^verbatim>\<open>__proto__\<close> it does not, since
  the assignment leaves the own properties as they were
  (\<open>post_worker_proto_name_ignored\<close>): on the empty registry,
  \<^verbatim>\<open>POST /workers/__proto__\<close> with the definition of port 8787 and then with the
  definition of port 8788 leaves \<^verbatim>\<open>GET /workers\<close> answering the empty mapping, so
  the registry maps the name to nothing instead of the second definition.
\<close>

theorem post_worker_proto_name_not_stored:
  "fst (get_workers
          (snd (post_worker ''__proto__'' (local_worker 8788)
                  (snd (post_worker ''__proto__'' (local_worker 8787) empty_object)))))
     = JsonRegistry []
   \<and> registry_lookup
         (snd (post_worker ''__proto__'' (local_worker 8788)
                  (snd (post_worker ''__proto__'' (local_worker 8787) empty_object))))
         ''__proto__''
     = None"
  by (simp add: post_worker_def js_assign_def get_workers_def js_stringify_def empty_object_def
                registry_lookup_def)

text \<open>
  Claim C5 (clear empties the registry). Whatever the registry holds, in particular
  when it holds \<open>n \<ge> 1\<close> workers, after \<^verbatim>\<open>DELETE /workers\<close> the variable
  \<^verbatim>\<open>workers\<close> is the empty object, \<^verbatim>\<open>GET /workers\<close> answers the empty mapping, a
  \<^verbatim>\<open>getRegisteredWorkers\<close> that receives this answer returns the empty mapping, and no
  name has an entry.
\<close>

theorem delete_workers_clears:
  "snd (delete_workers w) = empty_object
   \<and> fst (get_workers (snd (delete_workers w))) = JsonRegistry []
   \<and> getRegisteredWorkers (Inr (fst (get_workers (snd (delete_workers w))))) = Inr (Some [])
   \<and> registry_lookup (snd (delete_workers w)) n = None"
  by (simp add: delete_workers_def get_workers_def js_stringify_def empty_object_def
                getRegisteredWorkers_def registry_lookup_def)

section \<open>Filtered discovery\<close>

lemma update_fresh_append:
  "k \<notin> fst ` set al \<Longrightarrow> AList.update k v al = al @ [(k, v)]"
  by (induction al) auto

lemma foldl_update_distinct:
  "distinct (map fst (acc @ xs)) \<Longrightarrow>
   foldl (\<lambda>obj (k, v). AList.update k v obj) acc xs = acc @ xs"
proof (induction xs arbitrary: acc)
  case Nil
  then show ?case by simp
next
  case (Cons x xs)
  obtain k v where x: "x = (k, v)" by (cases x)
  from Cons.prems have fresh: "k \<notin> fst ` set acc" by (auto simp: x)
  from Cons.prems have d: "distinct (map fst ((acc @ [(k, v)]) @ xs))" by (simp add: x)
  show ?case using Cons.IH [OF d] by (simp add: x update_fresh_append [OF fresh])
qed

lemma fromEntries_distinct: "distinct (map fst xs) \<Longrightarrow> fromEntries xs = xs"
  using foldl_update_distinct [of "[]" xs] by (simp add: fromEntries_def)

lemma map_of_filter_keys:
  "map_of (filter (\<lambda>(k, v). P k) xs) n = (if P n then map_of xs n else None)"
  by (induction xs) auto

lemma filter_condition_is_declared_target:
  "(key \<in> set (map service (case services of None \<Rightarrow> [] | Some ss \<Rightarrow> ss)) \<or>
    Some key \<in> set (map script_name
                       (bindings (case durable_objects of
                                    None \<Rightarrow> \<lparr>bindings = []\<rparr> | Some d \<Rightarrow> d))))
   = declared_target services durable_objects key"
  by (cases services; cases durable_objects) (fastforce simp: declared_target_def image_iff)+

text \<open>
  Claim C2 (filtered discovery). Let the registry \<open>reg\<close> have pairwise distinct names,
  as the keys of an object are. If \<^verbatim>\<open>getRegisteredWorkers\<close> returns \<open>reg\<close>, then
  \<^verbatim>\<open>getBoundRegisteredWorkers\<close> returns exactly the entries of \<open>reg\<close> whose name is
  the target service of a declared service binding or the script name of a declared
  durable-object binding: a name has an entry in the result if and only if it is such
  a name and has an entry in \<open>reg\<close>, and then it is the same entry. If
  \<^verbatim>\<open>getRegisteredWorkers\<close> returns \<^verbatim>\<open>undefined\<close>, the result is the empty mapping.
\<close>

theorem getBoundRegisteredWorkers_filters:
  assumes "distinct (map fst reg)"
  shows "(getRegisteredWorkers fetched = Inr (Some reg) \<longrightarrow>
            getBoundRegisteredWorkers services durable_objects fetched
              = Inr (filter (\<lambda>(n, d). declared_target services durable_objects n) reg))
       \<and> (\<forall>n. map_of (filter (\<lambda>(n, d). declared_target services durable_objects n) reg) n
               = (if declared_target services durable_objects n then map_of reg n else None))
       \<and> (getRegisteredWorkers fetched = Inr None \<longrightarrow>
            getBoundRegisteredWorkers services durable_objects fetched = Inr [])"
proof -
  have d: "distinct (map fst (filter (\<lambda>(n, d). declared_target services durable_objects n) reg))"
    using assms by (simp add: distinct_map_filter)
  have "getBoundRegisteredWorkers services durable_objects fetched
          = Inr (fromEntries (filter (\<lambda>(n, d). declared_target services durable_objects n) reg))"
    if "getRegisteredWorkers fetched = Inr (Some reg)"
    unfolding getBoundRegisteredWorkers_def Let_def filter_condition_is_declared_target
    using that by simp
  moreover have "getBoundRegisteredWorkers services durable_objects fetched = Inr []"
    if "getRegisteredWorkers fetched = Inr None"
    using that by (simp add: getBoundRegisteredWorkers_def fromEntries_def)
  ultimately show ?thesis
    by (simp add: fromEntries_distinct [OF d] map_of_filter_keys)
qed

theorem getBoundRegisteredWorkers_filters_witness:
  "distinct (map fst [(''a'', local_worker 8786), (''b'', local_worker 8787),
                      (''c'', local_worker 8788)])
   \<and> getBoundRegisteredWorkers
         (Some [\<lparr>binding = ''B'', service = ''b''\<rparr>])
         (Some \<lparr>bindings = [\<lparr>binding_name = ''C'', class_name = ''Counter'',
                             script_name = Some ''c''\<rparr>]\<rparr>)
         (Inr (JsonRegistry [(''a'', local_worker 8786), (''b'', local_worker 8787),
                             (''c'', local_worker 8788)]))
       = Inr [(''b'', local_worker 8787), (''c'', local_worker 8788)]
   \<and> getBoundRegisteredWorkers
         (Some [\<lparr>binding = ''B'', service = ''b''\<rparr>])
         (Some \<lparr>bindings = [\<lparr>binding_name = ''C'', class_name = ''Counter'',
                             script_name = Some ''c''\<rparr>]\<rparr>)
         (Inl \<lparr>err_code = None, cause = Some (Cause (Some ''ECONNREFUSED''))\<rparr>)
       = Inr []"
  using getBoundRegisteredWorkers_filters
          [of "[(''a'', local_worker 8786), (''b'', local_worker 8787),
                (''c'', local_worker 8788)]"
              "Inr (JsonRegistry [(''a'', local_worker 8786), (''b'', local_worker 8787),
                                  (''c'', local_worker 8788)])"
              "Some [\<lparr>binding = ''B'', service = ''b''\<rparr>]"
              "Some \<lparr>bindings = [\<lparr>binding_name = ''C'', class_name = ''Counter'',
                                  script_name = Some ''c''\<rparr>]\<rparr>"]
        getBoundRegisteredWorkers_filters
          [of "[]"
              "Inl \<lparr>err_code = None, cause = Some (Cause (Some ''ECONNREFUSED''))\<rparr>"
              "Some [\<lparr>binding = ''B'', service = ''b''\<rparr>]"
              "Some \<lparr>bindings = [\<lparr>binding_name = ''C'', class_name = ''Counter'',
                                  script_name = Some ''c''\<rparr>]\<rparr>"]
  by (simp add: getRegisteredWorkers_def declared_target_def is_unavailable_def
                cause_code_or_default_def)

section \<open>Errors of register and unregister\<close>

lemma is_unavailable_iff:
  "is_unavailable e \<longleftrightarrow> cause_code_is e ''ECONNRESET'' \<or> cause_code_is e ''ECONNREFUSED''"
  by (auto simp: is_unavailable_def cause_code_or_default_def cause_code_is_def
           split: option.splits if_splits)

text \<open>
  Claim C3 (error asymmetry of register and unregister). Let \<^verbatim>\<open>registerWorker\<close> get
  as far as its upsert request, that is, let its call of \<^verbatim>\<open>startWorkerRegistry\<close>
  return. If the request fails with any error \<open>e\<close>, \<^verbatim>\<open>registerWorker\<close> does not
  throw: it returns \<^verbatim>\<open>undefined\<close> and has logged \<open>e\<close> once, at debug level when the
  cause code of \<open>e\<close> is \<^verbatim>\<open>ECONNRESET\<close> or \<^verbatim>\<open>ECONNREFUSED\<close> and at error level
  otherwise. If the delete request of \<^verbatim>\<open>unregisterWorker\<close> fails with \<open>e\<close>, the call
  returns normally exactly when the cause code of \<open>e\<close> is \<^verbatim>\<open>ECONNRESET\<close> or
  \<^verbatim>\<open>ECONNREFUSED\<close>, and throws \<open>e\<close> itself for every other error.
\<close>

theorem register_swallows_unregister_rethrows:
  assumes "startWorkerRegistry probe bind p = Inr p'"
  shows "registerWorker nm d probe bind (Inl e) (p, lg)
           = (Inr None, p',
              lg @ [(if cause_code_is e ''ECONNRESET'' \<or> cause_code_is e ''ECONNREFUSED''
                     then LogDebug else LogError,
                     ''Failed to register worker in local service registry'', e)])
       \<and> unregisterWorker nm (Inl e)
           = (if cause_code_is e ''ECONNRESET'' \<or> cause_code_is e ''ECONNREFUSED''
              then Inr () else Inl e)"
  using assms
  by (simp add: registerWorker_def unregisterWorker_def is_unavailable_iff
                logger_error_def logger_debug_def)

theorem register_swallows_unregister_rethrows_witness:
  "startWorkerRegistry (ListenError ''EADDRINUSE'') Listening initial_process
     = Inr initial_process
   \<and> registerWorker ''w1'' (local_worker 8787) (ListenError ''EADDRINUSE'') Listening
         (Inl \<lparr>err_code = None, cause = Some (Cause (Some ''UND_ERR_SOCKET''))\<rparr>)
         (initial_process, [])
       = (Inr None, initial_process,
          [(LogError, ''Failed to register worker in local service registry'',
            \<lparr>err_code = None, cause = Some (Cause (Some ''UND_ERR_SOCKET''))\<rparr>)])
   \<and> unregisterWorker ''w1''
         (Inl \<lparr>err_code = None, cause = Some (Cause (Some ''UND_ERR_SOCKET''))\<rparr>)
       = Inl \<lparr>err_code = None, cause = Some (Cause (Some ''UND_ERR_SOCKET''))\<rparr>
   \<and> unregisterWorker ''w1''
         (Inl \<lparr>err_code = None, cause = Some (Cause (Some ''ECONNREFUSED''))\<rparr>)
       = Inr ()"
proof -
  have h: "startWorkerRegistry (ListenError ''EADDRINUSE'') Listening initial_process
             = Inr initial_process"
    by (simp add: startWorkerRegistry_def isPortAvailable_def)
  show ?thesis
    using h
      register_swallows_unregister_rethrows
        [OF h, of "''w1''"
           "local_worker 8787"
           "\<lparr>err_code = None, cause = Some (Cause (Some ''UND_ERR_SOCKET''))\<rparr>" "[]"]
      register_swallows_unregister_rethrows
        [OF h, of "''w1''"
           "local_worker 8787"
           "\<lparr>err_code = None, cause = Some (Cause (Some ''ECONNREFUSED''))\<rparr>" "[]"]
    by (simp add: cause_code_is_def)
qed

section \<open>Single authority\<close>

lemma single_authority_initial: "single_authority initial_process"
  by (simp add: single_authority_def initial_process_def)

lemma single_authority_no_handle:
  "single_authority p \<Longrightarrow> server p = None \<Longrightarrow> live p = []"
  by (cases "live p") (auto simp: single_authority_def)

lemma single_authority_start:
  assumes "single_authority p" and "startWorkerRegistry probe bind p = Inr p'"
  shows "single_authority p'"
proof (cases "isPortAvailable probe")
  case (Inl e)
  with assms(2) show ?thesis by (simp add: startWorkerRegistry_def)
next
  case (Inr available)
  show ?thesis
  proof (cases "available \<and> server p = None")
    case False
    with Inr assms show ?thesis by (auto simp: startWorkerRegistry_def)
  next
    case True
    then have "live p = []" using assms(1) single_authority_no_handle by blast
    with True Inr assms(2) show ?thesis
      by (cases bind) (auto simp: startWorkerRegistry_def single_authority_def Let_def)
  qed
qed

lemma single_authority_close:
  assumes "single_authority p" and "is_live i p"
  shows "single_authority (server_on_close i p)"
proof -
  from assms(2) obtain x where x: "x \<in> set (live p)" "ident x = i"
    by (auto simp: is_live_def)
  from assms(1) have handle: "\<forall>s \<in> set (live p). server p = Some (ident s)"
    by (simp add: single_authority_def)
  from handle x have "server p = Some i" by blast
  with handle have "\<forall>s \<in> set (live p). ident s = i" by simp
  then have "filter (\<lambda>s. ident s \<noteq> i) (live p) = []"
    by (simp add: filter_empty_conv)
  then show ?thesis by (simp add: single_authority_def server_on_close_def)
qed

lemma single_authority_stop:
  assumes "single_authority p"
  shows "single_authority (stopWorkerRegistry p)"
proof (cases "terminator p")
  case None
  with assms have "server p = None" by (auto simp: single_authority_def)
  then have "live p = []" using assms single_authority_no_handle by blast
  with None show ?thesis
    using assms by (simp add: stopWorkerRegistry_def single_authority_def)
next
  case (Some i)
  show ?thesis
  proof (cases "is_live i p")
    case True
    from single_authority_close [OF assms True] Some True show ?thesis
      by (simp add: stopWorkerRegistry_def single_authority_def server_on_close_def)
  next
    case False
    have "live p = []"
    proof (cases "live p")
      case Nil
      then show ?thesis .
    next
      case (Cons s rest)
      with assms have "server p = Some (ident s)" by (simp add: single_authority_def)
      with assms Some have "i = ident s" by (simp add: single_authority_def)
      with Cons False show ?thesis by (simp add: is_live_def)
    qed
    with Some False show ?thesis
      using assms by (simp add: stopWorkerRegistry_def single_authority_def)
  qed
qed

lemma single_authority_step: "single_authority p \<Longrightarrow> single_authority (step ev p)"
  by (cases ev)
     (auto simp: step_def single_authority_start single_authority_close single_authority_stop
           split: sum.splits)

lemma single_authority_run: "single_authority p \<Longrightarrow> single_authority (run evs p)"
  by (induction evs arbitrary: p) (simp_all add: single_authority_step)

lemma single_authority_at_most_one: "single_authority p \<Longrightarrow> length (live p) \<le> 1"
proof (cases "live p")
  case Nil
  then show ?thesis by simp
next
  case (Cons s rest)
  assume sa: "single_authority p"
  show ?thesis
  proof (cases rest)
    case Nil
    with Cons show ?thesis by simp
  next
    case (Cons t rest')
    with \<open>live p = s # rest\<close> sa have "ident s = ident t" "ident s \<noteq> ident t"
      by (auto simp: single_authority_def)
    then show ?thesis by simp
  qed
qed

lemma start_probe_error:
  "c \<noteq> ''EADDRINUSE'' \<Longrightarrow> startWorkerRegistry (ListenError c) bind p = Inl (system_error c)"
  by (simp add: startWorkerRegistry_def isPortAvailable_def)

lemma start_noop:
  "probe = ListenError ''EADDRINUSE'' \<or> (probe = Listening \<and> server p \<noteq> None) \<Longrightarrow>
   startWorkerRegistry probe bind p = Inr p"
  by (auto simp: startWorkerRegistry_def isPortAvailable_def)

lemma start_after_close:
  "startWorkerRegistry Listening Listening (server_on_close i p) =
     Inr ((server_on_close i p)
            \<lparr>server := Some (created p), terminator := Some (created p),
             created := Suc (created p),
             live := \<lparr>ident = created p, workers = empty_object\<rparr> # live (server_on_close i p)\<rparr>)"
  by (simp add: startWorkerRegistry_def isPortAvailable_def server_on_close_def Let_def)

text \<open>
  Claim C4, as stated, says that a start call made while the handle \<^verbatim>\<open>server\<close> is set
  does not throw. The probe runs before the handle is looked at: after one successful
  start the handle is set, and a start call whose probe fails with \<^verbatim>\<open>EACCES\<close> throws
  that error.
\<close>

theorem start_with_handle_set_throws:
  "server (run [StartCall Listening Listening] initial_process) \<noteq> None
   \<and> startWorkerRegistry (ListenError ''EACCES'') Listening
        (run [StartCall Listening Listening] initial_process)
       = Inl (system_error ''EACCES'')"
  by (simp add: step_def startWorkerRegistry_def isPortAvailable_def initial_process_def Let_def)

text \<open>
  Claim C4, amended (single authority). After every history of start calls, socket
  closes and stop calls of one process, at most one server instance of the process is
  live. A start call whose probe fails with an error other than \<^verbatim>\<open>EADDRINUSE\<close> throws
  that error, whether the handle is set or not. A start call whose probe finds the port
  occupied, or whose probe finds it free while the handle is set, changes nothing and
  does not throw. When the socket of an instance closes the handle is reset to
  \<^verbatim>\<open>null\<close>, and a start call that then finds the port free creates a new instance
  with an empty registry, sets the handle to it and makes it live.
\<close>

theorem single_authority_lifecycle:
  "length (live (run evs initial_process)) \<le> 1
   \<and> (c \<noteq> ''EADDRINUSE'' \<longrightarrow>
        startWorkerRegistry (ListenError c) bind p = Inl (system_error c))
   \<and> (probe = ListenError ''EADDRINUSE'' \<or> (probe = Listening \<and> server p \<noteq> None) \<longrightarrow>
        startWorkerRegistry probe bind p = Inr p)
   \<and> server (server_on_close i p) = None
   \<and> (\<exists>p'. startWorkerRegistry Listening Listening (server_on_close i p) = Inr p'
           \<and> server p' = Some (created p)
           \<and> \<lparr>ident = created p, workers = empty_object\<rparr> \<in> set (live p'))"
proof -
  have "length (live (run evs initial_process)) \<le> 1"
    by (rule single_authority_at_most_one [OF single_authority_run [OF single_authority_initial]])
  moreover have "server (server_on_close i p) = None"
    by (simp add: server_on_close_def)
  ultimately show ?thesis
    using start_probe_error [of c bind p] start_noop [of probe p bind] start_after_close [of i p]
    by simp
qed

theorem single_authority_lifecycle_witness:
  "length (live (run [StartCall Listening Listening,
                      StartCall (ListenError ''EADDRINUSE'') Listening,
                      SocketClose 0, StartCall Listening Listening] initial_process)) \<le> 1
   \<and> ''EACCES'' \<noteq> ''EADDRINUSE''
   \<and> startWorkerRegistry (ListenError ''EACCES'') Listening initial_process
       = Inl (system_error ''EACCES'')
   \<and> startWorkerRegistry (ListenError ''EADDRINUSE'') Listening initial_process
       = Inr initial_process
   \<and> server (run [StartCall Listening Listening] initial_process) \<noteq> None
   \<and> startWorkerRegistry Listening Listening (run [StartCall Listening Listening] initial_process)
       = Inr (run [StartCall Listening Listening] initial_process)
   \<and> server (server_on_close 0 (run [StartCall Listening Listening] initial_process)) = None"
  using single_authority_lifecycle
          [of "[StartCall Listening Listening, StartCall (ListenError ''EADDRINUSE'') Listening,
                SocketClose 0, StartCall Listening Listening]"
              "''EACCES''" Listening initial_process "ListenError ''EADDRINUSE''" 0]
        single_authority_lifecycle
          [of "[]" "''EACCES''" Listening "run [StartCall Listening Listening] initial_process"
              Listening 0]
  by (simp add: step_def startWorkerRegistry_def isPortAvailable_def initial_process_def Let_def)

end
